theory Spec2Isabelle
  imports Complex_Main
begin

section \<open>Cash-flow projection and Monte Carlo engine (app/engine.py)\<close>

text \<open>
  The engine works on Python floats. They are embedded as the real numbers: every sum,
  product and quotient is exact, and \<open>round(x, n)\<close> rounds the exact decimal expansion
  (half to even). Integers (day numbers, run counts, seeds) are Python's unbounded ints.
\<close>

subsection \<open>Library functions the engine calls\<close>

datatype error = ValueError | OverflowError | ZeroDivisionError

text \<open>
  Three functions of Python's standard library are parameters of the embedding:
  \<^item> \<open>strptime\<close>: \<open>datetime.strptime(s, "%Y-%m-%d")\<close>. The result is a datetime at
    midnight, represented by its proleptic Gregorian day number (1 is 0001-01-01, 3652059 is
    9999-12-31); \<open>None\<close> stands for the \<open>ValueError\<close> raised on a malformed string.
  \<^item> \<open>random_seed\<close>: the state of the process-wide generator after \<open>random.seed(n)\<close>.
  \<^item> \<open>random_uniform\<close>: \<open>random.uniform(a, b)\<close>, as a function from the generator state to
    the drawn number and the next state.
\<close>

record 'g library =
  strptime :: "string \<Rightarrow> int option"
  random_seed :: "int \<Rightarrow> 'g"
  random_uniform :: "'g \<Rightarrow> real \<Rightarrow> real \<Rightarrow> real \<times> 'g"

text \<open>Python's built-in \<open>round\<close>: to the nearest integer, an exact tie to the even one.\<close>

definition round_half_even :: "real \<Rightarrow> int" where
  "round_half_even x =
     (let f = \<lfloor>x\<rfloor>; d = x - of_int f
      in if d < 1 / 2 then f else if 1 / 2 < d then f + 1 else if even f then f else f + 1)"

definition py_round :: "real \<Rightarrow> nat \<Rightarrow> real" where
  "py_round x nd = of_int (round_half_even (x * 10 ^ nd)) / 10 ^ nd"

text \<open>
  \<open>d - timedelta(days=w)\<close>: a datetime outside 0001-01-01 .. 9999-12-31 cannot be
  represented, and the subtraction raises \<open>OverflowError\<close>.
\<close>

definition datetime_sub_days :: "int \<Rightarrow> int \<Rightarrow> error + int" where
  "datetime_sub_days d w =
     (if 1 \<le> d - w \<and> d - w \<le> 3652059 then Inr (d - w) else Inl OverflowError)"

subsection \<open>Transactions and the cash-flow aggregator\<close>

record transaction =
  date :: string
  amount :: real
  type :: string

record cash_flow =
  total_income :: real
  total_expense :: real
  current_balance :: real

fun cash_flow_loop :: "transaction list \<Rightarrow> real \<times> real \<Rightarrow> real \<times> real" where
  "cash_flow_loop [] acc = acc"
| "cash_flow_loop (tx # txs) (inc, expn) =
     (if type tx = ''income'' then cash_flow_loop txs (inc + amount tx, expn)
      else if type tx = ''expense'' then cash_flow_loop txs (inc, expn + amount tx)
      else cash_flow_loop txs (inc, expn))"

definition calculate_cash_flow :: "transaction list \<Rightarrow> cash_flow" where
  "calculate_cash_flow txs =
     (case cash_flow_loop txs (0, 0) of
        (inc, expn) \<Rightarrow>
          \<lparr>total_income = inc, total_expense = expn, current_balance = inc - expn\<rparr>)"

subsection \<open>Burn rate\<close>

fun parse_transactions :: "'g library \<Rightarrow> transaction list \<Rightarrow> error + (transaction \<times> int) list" where
  "parse_transactions L [] = Inr []"
| "parse_transactions L (tx # txs) =
     (case strptime L (date tx) of
        None \<Rightarrow> Inl ValueError
      | Some d \<Rightarrow>
          (case parse_transactions L txs of
             Inl e \<Rightarrow> Inl e
           | Inr ps \<Rightarrow> Inr ((tx, d) # ps)))"

text \<open>Python's \<open>max\<close> over a non-empty sequence, given as its first element and the rest.\<close>

fun py_max :: "int \<Rightarrow> int list \<Rightarrow> int" where
  "py_max m [] = m"
| "py_max m (d # ds) = py_max (if m < d then d else m) ds"

fun expense_loop :: "int \<Rightarrow> (transaction \<times> int) list \<Rightarrow> real \<Rightarrow> real" where
  "expense_loop ws [] expense_total = expense_total"
| "expense_loop ws ((tx, d) # ps) expense_total =
     (if type tx = ''expense'' \<and> ws \<le> d then expense_loop ws ps (expense_total + amount tx)
      else expense_loop ws ps expense_total)"

definition estimate_burn_rate :: "'g library \<Rightarrow> transaction list \<Rightarrow> int \<Rightarrow> error + real" where
  "estimate_burn_rate L txs wdays =
     (if txs = [] then Inr 0
      else case parse_transactions L txs of
        Inl e \<Rightarrow> Inl e
      | Inr [] \<Rightarrow> Inl ValueError
      | Inr ((tx, d) # ps) \<Rightarrow>
          (case datetime_sub_days (py_max d (map snd ps)) wdays of
             Inl e \<Rightarrow> Inl e
           | Inr ws \<Rightarrow>
               (if wdays = 0 then Inl ZeroDivisionError
                else Inr (py_round (expense_loop ws ((tx, d) # ps) 0 / of_int wdays) 2))))"

subsection \<open>Runway and risk tier\<close>

text \<open>
  \<open>risk_level\<close> compares its argument with \<open>float("inf")\<close>, so here the float keeps its
  non-finite values. A comparison with NaN is false.
\<close>

datatype pyfloat = Fin real | PosInf | NegInf | NaN



definition estimate_runway :: "real \<Rightarrow> real \<Rightarrow> pyfloat" where
  "estimate_runway bal daily_burn =
     (if daily_burn = 0 then PosInf else Fin (py_round (bal / daily_burn) 2))"





subsection \<open>One randomized projection\<close>

record point =
  day :: int
  projected_balance :: real

text \<open>
  \<open>income_dates\<close> is a dict from the date string to the income of that date, in insertion
  order.
\<close>

fun dict_add :: "string \<Rightarrow> real \<Rightarrow> (string \<times> real) list \<Rightarrow> (string \<times> real) list" where
  "dict_add k v [] = [(k, 0 + v)]"
| "dict_add k v ((k', v') # kvs) =
     (if k = k' then (k', v' + v) # kvs else (k', v') # dict_add k v kvs)"

fun income_loop :: "transaction list \<Rightarrow> (string \<times> real) list \<Rightarrow> (string \<times> real) list" where
  "income_loop [] income_dates = income_dates"
| "income_loop (tx # txs) income_dates =
     (if type tx = ''income'' then income_loop txs (dict_add (date tx) (amount tx) income_dates)
      else income_loop txs income_dates)"

text \<open>
  The set-up of a run (lines 143 to 162): the starting balance, the daily burn, the
  average income per income day and the income frequency.
\<close>

definition projection_setup ::
  "'g library \<Rightarrow> transaction list \<Rightarrow> int \<Rightarrow> error + (real \<times> real \<times> real \<times> real)" where
  "projection_setup L txs wdays =
     (case estimate_burn_rate L txs wdays of
        Inl e \<Rightarrow> Inl e
      | Inr daily_burn \<Rightarrow>
          (let income_dates = income_loop txs [] in
           if income_dates \<noteq> [] then
             (if wdays = 0 then Inl ZeroDivisionError
              else Inr (current_balance (calculate_cash_flow txs), daily_burn,
                        sum_list (map snd income_dates) / of_nat (length income_dates),
                        of_nat (length income_dates) / of_int wdays))
           else Inr (current_balance (calculate_cash_flow txs), daily_burn, 0, 0)))"

text \<open>
  The arithmetic of one day (lines 169 to 176): the balance and the generator before the
  day, the balance and the generator after it.
\<close>

definition draw_day ::
  "'g library \<Rightarrow> real \<times> real \<times> real \<Rightarrow> real \<times> real \<Rightarrow> real \<times> 'g \<Rightarrow> real \<times> 'g" where
  "draw_day L pat vol s =
     (case pat of (daily_burn, avg_income, income_frequency) \<Rightarrow>
      case vol of (ivol, bvol) \<Rightarrow>
      case s of (bal, g) \<Rightarrow>
        (case (if 0 < income_frequency
               then (case random_uniform L g (1 - ivol) (1 + ivol) of
                       (u, g') \<Rightarrow> (bal + avg_income * income_frequency * u, g'))
               else (bal, g)) of
           (bal1, g1) \<Rightarrow>
             (case random_uniform L g1 (1 - bvol) (1 + bvol) of
                (u, g2) \<Rightarrow> (bal1 - daily_burn * u, g2))))"

text \<open>
  The loop over the days. Its state is the running balance, the generator, the projection
  so far and the cashout day. The module defines \<open>project_cash_flow\<close> twice; the second
  definition (line 124) replaces the first and is the one embedded here.
\<close>

fun project_days ::
  "'g library \<Rightarrow> real \<times> real \<times> real \<Rightarrow> real \<times> real \<Rightarrow> int list \<Rightarrow>
   (real \<times> 'g) \<times> point list \<times> int option \<Rightarrow> (real \<times> 'g) \<times> point list \<times> int option" where
  "project_days L pat vol [] st = st"
| "project_days L pat vol (d # ds) (s, proj, cashout) =
     (let s' = draw_day L pat vol s in
      project_days L pat vol ds
        (s', proj @ [\<lparr>day = d, projected_balance = py_round (fst s') 2\<rparr>],
         if cashout = None \<and> fst s' \<le> 0 then Some d else cashout))"

definition project_cash_flow ::
  "'g library \<Rightarrow> transaction list \<Rightarrow> int \<Rightarrow> int \<Rightarrow> real \<Rightarrow> real \<Rightarrow> int option \<Rightarrow> 'g \<Rightarrow>
   (error + point list \<times> int option) \<times> 'g" where
  "project_cash_flow L txs pdays wdays ivol bvol seed g0 =
     (let g = (case seed of None \<Rightarrow> g0 | Some n \<Rightarrow> random_seed L n) in
      if txs = [] then (Inr ([], None), g)
      else case projection_setup L txs wdays of
        Inl e \<Rightarrow> (Inl e, g)
      | Inr (bal, daily_burn, avg_income, income_frequency) \<Rightarrow>
          (case project_days L (daily_burn, avg_income, income_frequency) (ivol, bvol)
                  [1..pdays] ((bal, g), [], None) of
             ((bal', g'), proj, cashout) \<Rightarrow> (Inr (proj, cashout), g')))"

text \<open>
  For the statement of the cashout day: the running balances of a run before rounding, day
  by day, which the loop computes and does not return; and the first day of a list of days
  whose balance is zero or less.
\<close>

fun balance_trace ::
  "'g library \<Rightarrow> real \<times> real \<times> real \<Rightarrow> real \<times> real \<Rightarrow> nat \<Rightarrow> real \<times> 'g \<Rightarrow> real list" where
  "balance_trace L pat vol 0 s = []"
| "balance_trace L pat vol (Suc k) s =
     (let s' = draw_day L pat vol s in fst s' # balance_trace L pat vol k s')"



subsection \<open>Monte Carlo orchestrator\<close>

record summary =
  simulations :: int
  projection_days :: int
  window_days :: int
  income_volatility :: real
  burn_volatility :: real
  probability_cashout :: real
  cashout_count :: nat
  ending_balance_worst :: real
  ending_balance_median :: real
  ending_balance_best :: real
  ending_balance_p10 :: real
  ending_balance_p90 :: real
  avg_cashout_day :: "real option"
  min_cashout_day :: "int option"
  max_cashout_day :: "int option"

definition sim_seed :: "int option \<Rightarrow> int \<Rightarrow> int option" where
  "sim_seed seed i = (case seed of None \<Rightarrow> None | Some n \<Rightarrow> Some (n + i))"

text \<open>The loop over the run indices; an exception of a run ends it.\<close>

fun simulation_loop ::
  "'g library \<Rightarrow> transaction list \<Rightarrow> int \<Rightarrow> int \<Rightarrow> real \<Rightarrow> real \<Rightarrow> int option \<Rightarrow> int list \<Rightarrow>
   real list \<times> int list \<Rightarrow> 'g \<Rightarrow> (error + real list \<times> int list) \<times> 'g" where
  "simulation_loop L txs pdays wdays ivol bvol seed [] acc g = (Inr acc, g)"
| "simulation_loop L txs pdays wdays ivol bvol seed (i # is) (endings, cashouts) g =
     (case project_cash_flow L txs pdays wdays ivol bvol (sim_seed seed i) g of
        (Inl e, g') \<Rightarrow> (Inl e, g')
      | (Inr (proj, cashout), g') \<Rightarrow>
          simulation_loop L txs pdays wdays ivol bvol seed is
            (endings @ [if proj \<noteq> [] then projected_balance (last proj) else 0],
             (case cashout of None \<Rightarrow> cashouts | Some c \<Rightarrow> cashouts @ [c])) g')"

definition percentile_index :: "nat \<Rightarrow> int \<Rightarrow> nat" where
  "percentile_index n p =
     nat (max 0 (min (int n - 1) (round_half_even (of_int p / 100 * of_int (int n - 1)))))"

definition percentile :: "real list \<Rightarrow> int \<Rightarrow> real" where
  "percentile endings_sorted p =
     (let n = length endings_sorted in
      if n = 0 then 0 else endings_sorted ! percentile_index n p)"

text \<open>Python's \<open>min\<close>, likewise.\<close>

fun py_min :: "int \<Rightarrow> int list \<Rightarrow> int" where
  "py_min m [] = m"
| "py_min m (c # cs) = py_min (if c < m then c else m) cs"

text \<open>The aggregation (lines 220 to 248) over the collected endings and cashout days.\<close>

definition summarise ::
  "int \<Rightarrow> int \<Rightarrow> int \<Rightarrow> real \<Rightarrow> real \<Rightarrow> real list \<Rightarrow> int list \<Rightarrow> summary" where
  "summarise sims pdays wdays ivol bvol endings cashouts =
     (let endings_sorted = sort endings;
          prob_cashout = (if 0 < sims then of_nat (length cashouts) / of_int sims else 0)
      in \<lparr>simulations = sims,
          projection_days = pdays,
          window_days = wdays,
          income_volatility = ivol,
          burn_volatility = bvol,
          probability_cashout = py_round prob_cashout 4,
          cashout_count = length cashouts,
          ending_balance_worst =
            (if endings_sorted \<noteq> [] then py_round (hd endings_sorted) 2 else 0),
          ending_balance_median = py_round (percentile endings_sorted 50) 2,
          ending_balance_best =
            (if endings_sorted \<noteq> [] then py_round (last endings_sorted) 2 else 0),
          ending_balance_p10 = py_round (percentile endings_sorted 10) 2,
          ending_balance_p90 = py_round (percentile endings_sorted 90) 2,
          avg_cashout_day =
            (if cashouts \<noteq> []
             then Some (py_round (of_int (sum_list cashouts) / of_nat (length cashouts)) 2)
             else None),
          min_cashout_day =
            (case cashouts of [] \<Rightarrow> None | c # cs \<Rightarrow> Some (py_min c cs)),
          max_cashout_day =
            (case cashouts of [] \<Rightarrow> None | c # cs \<Rightarrow> Some (py_max c cs))\<rparr>)"

definition run_monte_carlo_simulation ::
  "'g library \<Rightarrow> transaction list \<Rightarrow> int \<Rightarrow> int \<Rightarrow> int \<Rightarrow> real \<Rightarrow> real \<Rightarrow> int option \<Rightarrow> 'g \<Rightarrow>
   (error + summary) \<times> 'g" where
  "run_monte_carlo_simulation L txs sims pdays wdays ivol bvol seed g =
     (case simulation_loop L txs pdays wdays ivol bvol seed [0..sims - 1] ([], []) g of
        (Inl e, g') \<Rightarrow> (Inl e, g')
      | (Inr (endings, cashouts), g') \<Rightarrow>
          (Inr (summarise sims pdays wdays ivol bvol endings cashouts), g'))"

text \<open>
  For the statement of reproducibility: the accumulation of the loop, over a list of run
  results that are already computed.
\<close>

fun collect_runs ::
  "(error + point list \<times> int option) list \<Rightarrow> real list \<times> int list \<Rightarrow>
   error + real list \<times> int list" where
  "collect_runs [] acc = Inr acc"
| "collect_runs (Inl e # rs) acc = Inl e"
| "collect_runs (Inr (proj, cashout) # rs) (endings, cashouts) =
     collect_runs rs
       (endings @ [if proj \<noteq> [] then projected_balance (last proj) else 0],
        (case cashout of None \<Rightarrow> cashouts | Some c \<Rightarrow> cashouts @ [c]))"

subsection \<open>Scenario modifier\<close>

text \<open>
  The transactions are dict objects that the caller still holds, so the modifier is embedded
  over a store: an object's address is its index in the store, the argument and the result
  are lists of addresses, and \<open>tx.copy()\<close> allocates.
\<close>

type_synonym store = "transaction list"

definition scale_amount :: "store \<Rightarrow> nat \<Rightarrow> real \<Rightarrow> store" where
  "scale_amount h a f = h[a := (h ! a)\<lparr>amount := amount (h ! a) * f\<rparr>]"

definition modify_copy :: "string \<Rightarrow> nat \<Rightarrow> nat \<Rightarrow> store \<Rightarrow> store" where
  "modify_copy scenario tx new_tx h =
     (if scenario = ''optimistic'' then
        (let h1 = (if type (h ! tx) = ''income'' then scale_amount h new_tx (115 / 100) else h)
         in if type (h1 ! tx) = ''expense'' then scale_amount h1 new_tx (95 / 100) else h1)
      else if scenario = ''conservative'' then
        (let h1 = (if type (h ! tx) = ''income'' then scale_amount h new_tx (85 / 100) else h)
         in if type (h1 ! tx) = ''expense'' then scale_amount h1 new_tx (110 / 100) else h1)
      else h)"

fun scenario_loop :: "string \<Rightarrow> nat list \<Rightarrow> nat list \<times> store \<Rightarrow> nat list \<times> store" where
  "scenario_loop scenario [] acc = acc"
| "scenario_loop scenario (tx # txs) (adjusted, h) =
     (let new_tx = length h;
          h1 = h @ [h ! tx];
          h2 = modify_copy scenario tx new_tx h1
      in scenario_loop scenario txs (adjusted @ [new_tx], h2))"

definition apply_scenario_modifiers :: "store \<Rightarrow> nat list \<Rightarrow> string \<Rightarrow> nat list \<times> store" where
  "apply_scenario_modifiers h transactions scenario = scenario_loop scenario transactions ([], h)"

text \<open>
  For the statements about the modifier: the value of a copy after the body of the loop, and
  the table of factors of the specification (income factor, expense factor), which has a
  row for three scenario names only.
\<close>

definition scaled :: "string \<Rightarrow> transaction \<Rightarrow> transaction" where
  "scaled scenario tx =
     (if scenario = ''optimistic'' then
        (if type tx = ''income'' then tx\<lparr>amount := amount tx * (115 / 100)\<rparr>
         else if type tx = ''expense'' then tx\<lparr>amount := amount tx * (95 / 100)\<rparr>
         else tx)
      else if scenario = ''conservative'' then
        (if type tx = ''income'' then tx\<lparr>amount := amount tx * (85 / 100)\<rparr>
         else if type tx = ''expense'' then tx\<lparr>amount := amount tx * (110 / 100)\<rparr>
         else tx)
      else tx)"


subsection \<open>A concrete library and ledger for the examples\<close>

text \<open>
  The example generator state is the list of the numbers in \<open>[0, 1]\<close> still to be drawn;
  \<open>uniform(a, b)\<close> is \<open>a + (b - a) * r\<close> for the next such number \<open>r\<close>, as in Python.
\<close>

definition example_strptime :: "string \<Rightarrow> int option" where
  "example_strptime s =
     (if s = ''2024-01-01'' then Some 738886
      else if s = ''2024-01-05'' then Some 738890
      else if s = ''0001-01-05'' then Some 5
      else None)"

definition example_seed :: "int \<Rightarrow> real list" where
  "example_seed n =
     (if n = 0 then [2 / 9, 0, 2 / 9, 0, 2 / 9, 0, 2 / 9, 0, 2 / 9, 0, 2 / 9, 0, 2 / 9, 0,
                     2 / 9, 0, 0, 0, 5 / 36, 0, 13 / 36, 0]
      else if n = 1 then [0, 1, 0, 1]
      else [1, 0, 1, 0])"

definition example_uniform :: "real list \<Rightarrow> real \<Rightarrow> real \<Rightarrow> real \<times> real list" where
  "example_uniform g a b = (case g of [] \<Rightarrow> (a, []) | r # rs \<Rightarrow> (a + (b - a) * r, rs))"

definition example_library :: "real list library" where
  "example_library =
     \<lparr>strptime = example_strptime, random_seed = example_seed,
      random_uniform = example_uniform\<rparr>"

definition example_ledger :: "transaction list" where
  "example_ledger =
     [\<lparr>date = ''2024-01-01'', amount = 1000, type = ''income''\<rparr>,
      \<lparr>date = ''2024-01-05'', amount = 200, type = ''expense''\<rparr>]"

text \<open>A ledger that runs out of cash within days, for some draws and not for others.\<close>

definition tight_ledger :: "transaction list" where
  "tight_ledger =
     [\<lparr>date = ''2024-01-01'', amount = 3000, type = ''income''\<rparr>,
      \<lparr>date = ''2024-01-05'', amount = 2970, type = ''expense''\<rparr>]"




section \<open>Properties\<close>

subsection \<open>Rounding\<close>

lemma round_half_even_of_int [simp]: "round_half_even (of_int k) = k"
  by (simp add: round_half_even_def)




lemma py_round_of_int [simp]: "py_round (of_int k) nd = of_int k"
proof -
  have "of_int k * (10::real) ^ nd = of_int (k * 10 ^ nd)"
    by simp
  then have "round_half_even (of_int k * 10 ^ nd) = k * 10 ^ nd"
    by (simp only: round_half_even_of_int)
  then show ?thesis
    by (simp add: py_round_def)
qed

lemma py_round_0 [simp]: "py_round 0 nd = 0"
  using py_round_of_int [of 0 nd] by simp

lemma py_round_1 [simp]: "py_round 1 nd = 1"
  using py_round_of_int [of 1 nd] by simp

subsection \<open>Risk tiers\<close>



subsection \<open>Percentiles\<close>

lemma percentile_nth:
  "xs \<noteq> [] \<Longrightarrow> percentile xs p = xs ! percentile_index (length xs) p"
  by (simp add: percentile_def Let_def)

lemma percentile_index_less: "0 < n \<Longrightarrow> percentile_index n p < n"
  by (auto simp add: percentile_index_def)


lemma percentile_empty [simp]: "percentile [] p = 0"
  by (simp add: percentile_def)

lemma percentile_in_set: "xs \<noteq> [] \<Longrightarrow> percentile xs p \<in> set xs"
  by (simp add: percentile_nth percentile_index_less)




lemma percentile_replicate_zero [simp]: "percentile (replicate n 0) p = 0"
proof (cases "n = 0")
  case True
  then show ?thesis by simp
next
  case False
  then have "percentile (replicate n 0) p \<in> set (replicate n (0::real))"
    by (intro percentile_in_set) simp
  then show ?thesis by simp
qed

lemma sort_replicate [simp]: "sort (replicate n (x::real)) = replicate n x"
  by (simp add: sorted_sort_id sorted_replicate)

subsection \<open>The empty ledger\<close>

lemma project_cash_flow_empty:
  "\<exists>g'. project_cash_flow L [] pdays wdays ivol bvol seed g = (Inr ([], None), g')"
  by (simp add: project_cash_flow_def Let_def)

lemma simulation_loop_empty:
  "\<exists>g'. simulation_loop L [] pdays wdays ivol bvol seed js (endings, cashouts) g
         = (Inr (endings @ replicate (length js) 0, cashouts), g')"
proof (induction js arbitrary: endings g)
  case Nil
  then show ?case by simp
next
  case (Cons j js)
  obtain g1 where "project_cash_flow L [] pdays wdays ivol bvol (sim_seed seed j) g = (Inr ([], None), g1)"
    using project_cash_flow_empty [of L] by blast
  then show ?case
    using Cons.IH [of "endings @ [0]" g1] by (simp add: replicate_app_Cons_same)
qed

lemma summarise_zero:
  "probability_cashout (summarise sims pdays wdays ivol bvol (replicate n 0) []) = 0"
  "ending_balance_worst (summarise sims pdays wdays ivol bvol (replicate n 0) []) = 0"
  "ending_balance_p10 (summarise sims pdays wdays ivol bvol (replicate n 0) []) = 0"
  "ending_balance_median (summarise sims pdays wdays ivol bvol (replicate n 0) []) = 0"
  "ending_balance_p90 (summarise sims pdays wdays ivol bvol (replicate n 0) []) = 0"
  "ending_balance_best (summarise sims pdays wdays ivol bvol (replicate n 0) []) = 0"
  by (simp_all add: summarise_def Let_def hd_replicate last_replicate)

text \<open>
  C9. On the empty ledger nothing raises: \<open>calculate_cash_flow\<close> returns three zeros,
  \<open>estimate_burn_rate\<close> returns 0, \<open>project_cash_flow\<close> returns the empty projection
  and no cashout day, and the Monte Carlo summary has a cashout probability of 0 and all
  five ending balances (worst, p10, median, p90, best) equal to 0, for every run count.
\<close>

theorem empty_ledger_no_error:
  "calculate_cash_flow [] = \<lparr>total_income = 0, total_expense = 0, current_balance = 0\<rparr>
   \<and> estimate_burn_rate L [] wdays = Inr 0
   \<and> fst (project_cash_flow L [] pdays wdays ivol bvol seed g) = Inr ([], None)
   \<and> (\<exists>s. fst (run_monte_carlo_simulation L [] sims pdays wdays ivol bvol seed g) = Inr s
          \<and> probability_cashout s = 0
          \<and> ending_balance_worst s = 0 \<and> ending_balance_p10 s = 0
          \<and> ending_balance_median s = 0 \<and> ending_balance_p90 s = 0
          \<and> ending_balance_best s = 0)"
proof -
  have a: "calculate_cash_flow [] = \<lparr>total_income = 0, total_expense = 0, current_balance = 0\<rparr>"
    by (simp add: calculate_cash_flow_def)
  have b: "estimate_burn_rate L [] wdays = Inr 0"
    by (simp add: estimate_burn_rate_def)
  have c: "fst (project_cash_flow L [] pdays wdays ivol bvol seed g) = Inr ([], None)"
    using project_cash_flow_empty [of L pdays wdays ivol bvol seed g] by auto
  obtain g' where "simulation_loop L [] pdays wdays ivol bvol seed [0..sims - 1] ([], []) g
      = (Inr ([] @ replicate (length [0..sims - 1]) 0, []), g')"
    using simulation_loop_empty [of L] by blast
  then have "fst (run_monte_carlo_simulation L [] sims pdays wdays ivol bvol seed g)
      = Inr (summarise sims pdays wdays ivol bvol (replicate (length [0..sims - 1]) 0) [])"
    by (simp add: run_monte_carlo_simulation_def)
  then have d: "\<exists>s. fst (run_monte_carlo_simulation L [] sims pdays wdays ivol bvol seed g) = Inr s
          \<and> probability_cashout s = 0
          \<and> ending_balance_worst s = 0 \<and> ending_balance_p10 s = 0
          \<and> ending_balance_median s = 0 \<and> ending_balance_p90 s = 0
          \<and> ending_balance_best s = 0"
    by (simp add: summarise_zero)
  from a b c d show ?thesis by blast
qed

theorem empty_ledger_no_error_witness:
  "estimate_burn_rate example_library [] 30 = Inr 0
   \<and> fst (project_cash_flow example_library [] 60 30 (1 / 10) (1 / 20) (Some 42) []) = Inr ([], None)
   \<and> (\<exists>s. fst (run_monte_carlo_simulation example_library [] 200 60 30 (1 / 10) (1 / 20) (Some 42) [])
            = Inr s
          \<and> probability_cashout s = 0 \<and> ending_balance_median s = 0)"
  using empty_ledger_no_error [where L = example_library and wdays = 30 and pdays = 60
      and ivol = "1 / 10" and bvol = "1 / 20" and seed = "Some 42" and g = "[]" and sims = 200]
  by blast

subsection \<open>The Monte Carlo summary\<close>


















text \<open>
  C8, as the code has it. A run count of zero or less is not rejected: the loop body never
  runs, no transaction is parsed, the generator is left as it was, and the summary echoes
  the configuration with a cashout probability and count of 0, all ending balances 0 and
  no cashout days.
\<close>

theorem no_runs_summary:
  assumes "sims \<le> 0"
  shows "run_monte_carlo_simulation L txs sims pdays wdays ivol bvol seed g
         = (Inr \<lparr>simulations = sims, projection_days = pdays, window_days = wdays,
                  income_volatility = ivol, burn_volatility = bvol,
                  probability_cashout = 0, cashout_count = 0,
                  ending_balance_worst = 0, ending_balance_median = 0,
                  ending_balance_best = 0, ending_balance_p10 = 0,
                  ending_balance_p90 = 0, avg_cashout_day = None,
                  min_cashout_day = None, max_cashout_day = None\<rparr>, g)"
  using assms
  by (simp add: run_monte_carlo_simulation_def summarise_def)

theorem no_runs_summary_witness:
  "(- 3 :: int) \<le> 0
   \<and> fst (run_monte_carlo_simulation example_library example_ledger (- 3) 60 30 (1 / 10) (1 / 20)
            (Some 42) [])
     = Inr \<lparr>simulations = - 3, projection_days = 60, window_days = 30,
             income_volatility = 1 / 10, burn_volatility = 1 / 20,
             probability_cashout = 0, cashout_count = 0,
             ending_balance_worst = 0, ending_balance_median = 0,
             ending_balance_best = 0, ending_balance_p10 = 0,
             ending_balance_p90 = 0, avg_cashout_day = None,
             min_cashout_day = None, max_cashout_day = None\<rparr>"
proof -
  have "(- 3 :: int) \<le> 0" by simp
  from no_runs_summary [OF this, of example_library example_ledger 60 30 "1 / 10" "1 / 20"
      "Some 42" "[]"]
  show ?thesis by simp
qed

text \<open>
  The claim as the specification states it fails: with \<open>simulations = 0\<close> the orchestrator
  returns a summary and raises nothing.
\<close>

theorem zero_simulations_counterexample:
  "fst (run_monte_carlo_simulation example_library example_ledger 0 60 30 (1 / 10) (1 / 20)
          (Some 42) [])
   = Inr \<lparr>simulations = 0, projection_days = 60, window_days = 30,
           income_volatility = 1 / 10, burn_volatility = 1 / 20,
           probability_cashout = 0, cashout_count = 0,
           ending_balance_worst = 0, ending_balance_median = 0,
           ending_balance_best = 0, ending_balance_p10 = 0,
           ending_balance_p90 = 0, avg_cashout_day = None,
           min_cashout_day = None, max_cashout_day = None\<rparr>"
  by (simp add: run_monte_carlo_simulation_def summarise_def)

subsection \<open>Reproducibility\<close>

lemma project_cash_flow_seeded:
  "project_cash_flow L txs pdays wdays ivol bvol (Some n) g
   = project_cash_flow L txs pdays wdays ivol bvol (Some n) g'"
  by (simp add: project_cash_flow_def)

lemma simulation_loop_collect:
  "fst (simulation_loop L txs pdays wdays ivol bvol (Some n) js acc g)
   = collect_runs
       (map (\<lambda>i. fst (project_cash_flow L txs pdays wdays ivol bvol (Some (n + i)) (G i))) js)
       acc"
proof (induction js arbitrary: acc g)
  case Nil
  then show ?case by simp
next
  case (Cons j js)
  obtain endings cashouts where acc: "acc = (endings, cashouts)"
    by (cases acc)
  have same: "project_cash_flow L txs pdays wdays ivol bvol (Some (n + j)) (G j)
              = project_cash_flow L txs pdays wdays ivol bvol (Some (n + j)) g"
    by (rule project_cash_flow_seeded)
  show ?case
  proof (cases "project_cash_flow L txs pdays wdays ivol bvol (Some (n + j)) g")
    case (Pair r g1)
    show ?thesis
    proof (cases r)
      case (Inl e)
      with Pair same show ?thesis
        by (simp add: acc sim_seed_def)
    next
      case (Inr pc)
      obtain proj cashout where "pc = (proj, cashout)"
        by (cases pc)
      with Pair Inr same Cons.IH show ?thesis
        by (simp add: acc sim_seed_def)
    qed
  qed
qed

text \<open>
  C1. With a base seed \<open>n\<close>, the outcome of \<open>run_monte_carlo_simulation\<close> (the summary,
  or the exception) does not depend on the state of the generator before the call: two
  invocations with the same inputs and the same base seed agree. Run \<open>i\<close> is the
  projection seeded with \<open>n + i\<close>, from whatever generator state \<open>G i\<close> it starts; the
  outcome is the aggregation of these runs for \<open>i = 0, ..., simulations - 1\<close>, so the
  per-run seeds depend on the base seed only.
\<close>

theorem seeded_runs_reproducible:
  "fst (run_monte_carlo_simulation L txs sims pdays wdays ivol bvol (Some n) g1)
   = fst (run_monte_carlo_simulation L txs sims pdays wdays ivol bvol (Some n) g2)
   \<and> fst (run_monte_carlo_simulation L txs sims pdays wdays ivol bvol (Some n) g1)
     = map_sum id (\<lambda>(endings, cashouts). summarise sims pdays wdays ivol bvol endings cashouts)
         (collect_runs
            (map (\<lambda>i. fst (project_cash_flow L txs pdays wdays ivol bvol (Some (n + i)) (G i)))
               [0..sims - 1])
            ([], []))"
proof -
  have run: "fst (run_monte_carlo_simulation L txs sims pdays wdays ivol bvol (Some n) g)
     = map_sum id (\<lambda>(endings, cashouts). summarise sims pdays wdays ivol bvol endings cashouts)
         (fst (simulation_loop L txs pdays wdays ivol bvol (Some n) [0..sims - 1] ([], []) g))"
    for g
    by (simp add: run_monte_carlo_simulation_def split: prod.splits sum.splits)
  show ?thesis
    by (simp only: run simulation_loop_collect [where G = G])
qed

theorem seeded_runs_reproducible_witness:
  "fst (run_monte_carlo_simulation example_library tight_ledger 2 3 30 (1 / 10) (1 / 20) (Some 1) [])
   = fst (run_monte_carlo_simulation example_library tight_ledger 2 3 30 (1 / 10) (1 / 20) (Some 1)
            [1 / 2, 1 / 2, 1 / 2])
   \<and> fst (run_monte_carlo_simulation example_library tight_ledger 2 3 30 (1 / 10) (1 / 20) (Some 1) [])
     = map_sum id (\<lambda>(endings, cashouts). summarise 2 3 30 (1 / 10) (1 / 20) endings cashouts)
         (collect_runs
            [fst (project_cash_flow example_library tight_ledger 3 30 (1 / 10) (1 / 20) (Some 1) []),
             fst (project_cash_flow example_library tight_ledger 3 30 (1 / 10) (1 / 20) (Some 2) [])]
            ([], []))"
proof -
  note t = seeded_runs_reproducible [of example_library tight_ledger 2 3 30 "1 / 10" "1 / 20" 1
      "[]" "[1 / 2, 1 / 2, 1 / 2]" "\<lambda>i. []"]
  have u: "[0..(1::int)] = [0, 1]"
    by (simp add: upto.simps)
  from t [THEN conjunct2] have
    "fst (run_monte_carlo_simulation example_library tight_ledger 2 3 30 (1 / 10) (1 / 20)
            (Some 1) [])
     = map_sum id (\<lambda>(endings, cashouts). summarise 2 3 30 (1 / 10) (1 / 20) endings cashouts)
         (collect_runs
            [fst (project_cash_flow example_library tight_ledger 3 30 (1 / 10) (1 / 20) (Some 1) []),
             fst (project_cash_flow example_library tight_ledger 3 30 (1 / 10) (1 / 20) (Some 2) [])]
            ([], []))"
    by (simp add: u)
  with t [THEN conjunct1] show ?thesis
    by (rule conjI)
qed

subsection \<open>The cashout day of a run\<close>



lemma length_balance_trace [simp]: "length (balance_trace L pat vol k s) = k"
  by (induction k arbitrary: s) (simp_all add: Let_def)












subsection \<open>The burn rate\<close>







subsection \<open>The scenario modifier\<close>

lemma modify_copy_fresh:
  assumes "tx < length h"
  shows "modify_copy scenario tx (length h) (h @ [h ! tx]) = h @ [scaled scenario (h ! tx)]"
  using assms
  by (simp add: modify_copy_def scale_amount_def scaled_def Let_def nth_append)

lemma scenario_loop_result:
  "\<forall>a\<in>set txs. a < length h \<Longrightarrow>
   scenario_loop scenario txs (adjusted, h)
   = (adjusted @ [length h..<length h + length txs],
      h @ map (\<lambda>a. scaled scenario (h ! a)) txs)"
proof (induction txs arbitrary: adjusted h)
  case Nil
  then show ?case by simp
next
  case (Cons tx txs)
  let ?h = "h @ [scaled scenario (h ! tx)]"
  have tx: "tx < length h" and rest: "\<forall>a\<in>set txs. a < length h"
    using Cons.prems by simp_all
  then have valid: "\<forall>a\<in>set txs. a < length ?h"
    by auto
  have same: "map (\<lambda>a. scaled scenario (?h ! a)) txs = map (\<lambda>a. scaled scenario (h ! a)) txs"
    using rest by (intro map_cong) (simp_all add: nth_append)
  have "scenario_loop scenario (tx # txs) (adjusted, h)
        = scenario_loop scenario txs (adjusted @ [length h], ?h)"
    by (simp add: modify_copy_fresh [OF tx] del: scenario_loop.simps(1))
  also have "\<dots> = ((adjusted @ [length h]) @ [length ?h..<length ?h + length txs],
                    ?h @ map (\<lambda>a. scaled scenario (?h ! a)) txs)"
    by (rule Cons.IH [OF valid])
  also have "\<dots> = (adjusted @ [length h..<length h + length (tx # txs)],
                    h @ map (\<lambda>a. scaled scenario (h ! a)) (tx # txs))"
  proof -
    have "length h < length h + length (tx # txs)"
      by simp
    then have "[length h..<length h + length (tx # txs)]
               = length h # [Suc (length h)..<length h + length (tx # txs)]"
      by (rule upt_conv_Cons)
    moreover have "Suc (length h) = length ?h"
      "length h + length (tx # txs) = length ?h + length txs"
      by simp_all
    ultimately have idx: "[length h..<length h + length (tx # txs)]
                          = length h # [length ?h..<length ?h + length txs]"
      by (simp only:)
    show ?thesis
      by (simp only: idx same append_assoc append.simps list.map)
  qed
  finally show ?case .
qed

lemma apply_scenario_modifiers_result:
  "\<forall>a\<in>set transactions. a < length h \<Longrightarrow>
   apply_scenario_modifiers h transactions scenario
   = ([length h..<length h + length transactions],
      h @ map (\<lambda>a. scaled scenario (h ! a)) transactions)"
  by (simp add: apply_scenario_modifiers_def scenario_loop_result)





text \<open>
  C7, as the code has it. A scenario name outside the table is not rejected: the modifier
  returns one unmodified copy per input transaction, the same result as for \<open>base\<close>.
\<close>

theorem unknown_scenario_unmodified:
  assumes "\<forall>a\<in>set transactions. a < length h"
    and "scenario \<notin> {''base'', ''optimistic'', ''conservative''}"
  shows "apply_scenario_modifiers h transactions scenario
         = ([length h..<length h + length transactions], h @ map (\<lambda>a. h ! a) transactions)
         \<and> apply_scenario_modifiers h transactions scenario
           = apply_scenario_modifiers h transactions ''base''"
proof -
  have "scaled scenario = (\<lambda>tx. tx)" "scaled ''base'' = (\<lambda>tx. tx)"
    using assms(2) by (auto simp add: scaled_def fun_eq_iff)
  then show ?thesis
    by (simp add: apply_scenario_modifiers_result [OF assms(1)])
qed

theorem unknown_scenario_unmodified_witness:
  "apply_scenario_modifiers example_ledger [0, 1] ''pessimistic''
   = ([2, 3], example_ledger @ example_ledger)
   \<and> apply_scenario_modifiers example_ledger [0, 1] ''pessimistic''
     = apply_scenario_modifiers example_ledger [0, 1] ''base''"
proof -
  have v: "\<forall>a\<in>set [0, 1]. a < length example_ledger"
    by (simp add: example_ledger_def)
  have u: "''pessimistic'' \<notin> {''base'', ''optimistic'', ''conservative''}"
    by simp
  have l: "length example_ledger = 2" "map (\<lambda>a. example_ledger ! a) [0, 1] = example_ledger"
    by (simp_all add: example_ledger_def)
  have n: "[2..<2 + length [0, 1 :: nat]] = [2, 3]"
    by (simp add: upt_rec)
  note t = unknown_scenario_unmodified [OF v u]
  from t [THEN conjunct1] have
    "apply_scenario_modifiers example_ledger [0, 1] ''pessimistic''
     = ([2, 3], example_ledger @ example_ledger)"
    by (simp only: l n)
  from this t [THEN conjunct2] show ?thesis
    by (rule conjI)
qed

text \<open>
  The claim as the specification states it fails: for the name \<open>aggressive\<close> the modifier
  returns the copies and raises nothing.
\<close>

theorem unknown_scenario_counterexample:
  "apply_scenario_modifiers example_ledger [0, 1] ''aggressive''
   = ([2, 3], example_ledger @ example_ledger)"
  by (simp add: apply_scenario_modifiers_def modify_copy_def Let_def example_ledger_def)

end
